theory Spec2Isabelle
  imports
    Main
    "HOL-Library.Word"
    "HOL-Library.Finite_Map"
    "HOL-Library.Char_ord"
    "HOL-Library.List_Lexorder"
begin

section \<open>The cassette of go-vcr (cassette/cassette.go)\<close>

subsection \<open>Data\<close>

text \<open>
  A Go \<^verbatim>\<open>string\<close> is a sequence of bytes, which is what \<^typ>\<open>string\<close> is. A Go
  \<^verbatim>\<open>int\<close> is a 64-bit two's complement integer (amd64, arm64). \<^verbatim>\<open>http.Header\<close> and
  \<^verbatim>\<open>url.Values\<close> are both \<^verbatim>\<open>map[string][]string\<close>: a finite map from keys to lists of
  values. Maps and slices are taken by content: a nil map is the empty map and a nil slice
  the empty list (the code only measures, ranges over and appends to them). Fields keep
  the names of the source, with a prefix (\<open>req_\<close>, \<open>resp_\<close>, \<open>http_\<close>) where two structs
  have a field of the same name.
\<close>

type_synonym goint = "64 word"

type_synonym header = "(string, string list) fmap"

text \<open>The calls the package makes into the operating system, by the path they are about.\<close>

datatype fs_op =
    OpReadFile string
  | OpStat string
  | OpMkdirAll string
  | OpCreate string
  | OpWrite string
  | OpClose string

text \<open>
  The errors the package returns. \<open>ErrInteractionNotFound\<close> is the package's own value;
  \<open>ErrNotExist\<close> and \<open>PathError\<close> are what the calls into \<^verbatim>\<open>os\<close> fail with,
  \<open>SyntaxError\<close> and \<open>UnmarshalTypeError\<close> what \<^verbatim>\<open>encoding/json\<close> fails with (by kind,
  without their messages). \<open>NilPointerDereference\<close> is the run-time panic of reading a
  field through a nil pointer.
\<close>

datatype error =
    ErrInteractionNotFound
  | NilPointerDereference
  | ErrNotExist
  | PathError fs_op
  | SyntaxError
  | UnmarshalTypeError

text \<open>\<^verbatim>\<open>type Request struct\<close>: a client request as recorded in the cassette file.\<close>

record Request =
  req_Body :: string
  req_Form :: header
  req_Headers :: header
  req_URL :: string
  req_Method :: string

text \<open>\<^verbatim>\<open>type Response struct\<close>: a server response as recorded in the cassette file.\<close>

record Response =
  resp_Body :: string
  resp_Headers :: header
  resp_Status :: string
  resp_Code :: goint

text \<open>\<^verbatim>\<open>type Interaction struct\<close>: the two embedded structs are its two fields.\<close>

record Interaction =
  Request :: Request
  Response :: Response

text \<open>
  The live request, \<^verbatim>\<open>*http.Request\<close> of \<^verbatim>\<open>net/http\<close>, with the fields a matcher can
  look at. \<open>http_URL\<close> holds the string \<^verbatim>\<open>r.URL.String()\<close>, the URL reassembled by
  \<^verbatim>\<open>net/url\<close> with its query string; how \<^verbatim>\<open>net/url\<close> reassembles it is not modelled.
\<close>

record http_Request =
  http_Method :: string
  http_URL :: string
  http_Header :: header
  http_Form :: header
  http_Body :: string

text \<open>\<^verbatim>\<open>type Matcher func(*http.Request, Request) bool\<close>\<close>

type_synonym Matcher = "http_Request \<Rightarrow> Request \<Rightarrow> bool"

text \<open>
  \<^verbatim>\<open>type Cassette struct\<close>. \<open>Interactions\<close> is a slice of pointers,
  \<^verbatim>\<open>[]*Interaction\<close>: an entry is \<open>Some i\<close> for a pointer to the interaction \<open>i\<close>
  (the package never writes through the pointer) and \<open>None\<close> for a nil pointer.
  The embedded \<^verbatim>\<open>sync.RWMutex\<close> has no counterpart: the model runs one call at a time.
\<close>

record Cassette =
  Name :: string
  File :: string
  Version :: goint
  Interactions :: "Interaction option list"
  Matcher :: Matcher

subsection \<open>Matching, creating, adding, looking up\<close>

definition cassetteFormatV1 :: goint where
  "cassetteFormatV1 = 1"

text \<open>
  \<^verbatim>\<open>func DefaultMatcher(r *http.Request, i Request) bool {
      return r.Method == i.Method && r.URL.String() == i.URL }\<close>
\<close>

definition DefaultMatcher :: Matcher where
  "DefaultMatcher r i = (http_Method r = req_Method i \<and> http_URL r = req_URL i)"

text \<open>
  \<^verbatim>\<open>func New(name string) *Cassette\<close>. \<^verbatim>\<open>fmt.Sprintf("%s.json", name)\<close> is the name
  followed by \<^verbatim>\<open>.json\<close>. The function takes the name alone and returns the cassette
  alone: it has no access to the file system.
\<close>

definition New :: "string \<Rightarrow> Cassette" where
  "New name =
     \<lparr> Name = name,
       File = name @ ''.json'',
       Version = cassetteFormatV1,
       Interactions = [],
       Matcher = DefaultMatcher \<rparr>"

text \<open>\<^verbatim>\<open>func (c *Cassette) AddInteraction(i *Interaction)\<close>: the receiver, updated.\<close>

definition AddInteraction :: "Cassette \<Rightarrow> Interaction option \<Rightarrow> Cassette" where
  "AddInteraction c i = c\<lparr>Interactions := Interactions c @ [i]\<rparr>"

text \<open>
  The loop of \<open>GetInteraction\<close>:
  \<^verbatim>\<open>for _, i := range c.Interactions {
      if c.Matcher(r, i.Request) { return i, nil } }
  return nil, ErrInteractionNotFound\<close>
  Reading \<^verbatim>\<open>i.Request\<close> through a nil \<^verbatim>\<open>i\<close> panics.
\<close>

fun GetInteraction_loop :: "Matcher \<Rightarrow> http_Request \<Rightarrow> Interaction option list \<Rightarrow> error + Interaction" where
  "GetInteraction_loop m r [] = Inl ErrInteractionNotFound"
| "GetInteraction_loop m r (None # rest) = Inl NilPointerDereference"
| "GetInteraction_loop m r (Some i # rest) =
     (if m r (Request i) then Inr i else GetInteraction_loop m r rest)"

text \<open>
  \<^verbatim>\<open>func (c *Cassette) GetInteraction(r *http.Request) (*Interaction, error)\<close>: what it
  returns, and the receiver as the call leaves it. The body assigns to no field of \<open>c\<close>.
\<close>

definition GetInteraction :: "Cassette \<Rightarrow> http_Request \<Rightarrow> (error + Interaction) \<times> Cassette" where
  "GetInteraction c r = (GetInteraction_loop (Matcher c) r (Interactions c), c)"

text \<open>
  \<open>n\<close> callers of \<open>GetInteraction\<close> with the same request, served one after the other:
  one of the orders in which callers running at the same time may be served, each call
  holding the lock for the whole of its body. The results are listed in the order of the
  calls, with the cassette as the last call leaves it.
\<close>

fun GetInteraction_times :: "nat \<Rightarrow> Cassette \<Rightarrow> http_Request \<Rightarrow> (error + Interaction) list \<times> Cassette" where
  "GetInteraction_times 0 c r = ([], c)"
| "GetInteraction_times (Suc n) c r =
     (case GetInteraction c r of
        (res, c') \<Rightarrow>
          (case GetInteraction_times n c' r of
             (rest, c'') \<Rightarrow> (res # rest, c'')))"

section \<open>What the package relies on\<close>

subsection \<open>Documents\<close>

text \<open>
  \<open>Save\<close> and \<open>Load\<close> go through \<^verbatim>\<open>encoding/json\<close>. The text of a file is taken
  as what the package's scanner makes of it: \<open>Malformed\<close> when it is not one well-formed
  JSON value (an empty file, for one), \<open>Document v\<close> when it is the value \<open>v\<close>. White
  space, indentation and escape sequences are not kept. Members of an object stay in the
  order of the text, repeated keys included. \<open>JInt\<close> is a number written as an integer,
  \<open>JNumber\<close> a number written with a fraction or an exponent (its text), \<open>JString\<close> a
  string after unquoting.
\<close>

datatype json =
    JNull
  | JBool bool
  | JInt int
  | JNumber string
  | JString string
  | JArray "json list"
  | JObject "(string \<times> json) list"

datatype bytes = Malformed | Document json

subsection \<open>Strings are written as valid UTF-8\<close>

text \<open>
  \<^verbatim>\<open>encoding/json\<close> writes a Go string "coerced to valid UTF-8, replacing invalid bytes
  with the Unicode replacement rune" (package documentation of \<^verbatim>\<open>Marshal\<close>).
  \<open>utf8_width s\<close> is the number of bytes of the well-formed UTF-8 sequence \<open>s\<close> starts
  with, 0 when it starts with none: the table of \<^verbatim>\<open>unicode/utf8\<close> (no overlong forms,
  no surrogates, nothing above U+10FFFF). The writer steps over a well-formed sequence and
  replaces any other byte, one at a time, by U+FFFD, the bytes EF BF BD.
\<close>

definition byte_in :: "nat \<Rightarrow> nat \<Rightarrow> char \<Rightarrow> bool" where
  "byte_in lo hi c = (lo \<le> of_char c \<and> of_char c \<le> hi)"

fun utf8_width :: "string \<Rightarrow> nat" where
  "utf8_width [] = 0"
| "utf8_width (c # cs) =
     (let b = (of_char c :: nat) in
      if b < 0x80 then 1
      else if 0xC2 \<le> b \<and> b \<le> 0xDF then
        (case cs of
           c1 # _ \<Rightarrow> if byte_in 0x80 0xBF c1 then 2 else 0
         | _ \<Rightarrow> 0)
      else if 0xE0 \<le> b \<and> b \<le> 0xEF then
        (case cs of
           c1 # c2 # _ \<Rightarrow>
             if byte_in (if b = 0xE0 then 0xA0 else 0x80) (if b = 0xED then 0x9F else 0xBF) c1
                \<and> byte_in 0x80 0xBF c2
             then 3 else 0
         | _ \<Rightarrow> 0)
      else if 0xF0 \<le> b \<and> b \<le> 0xF4 then
        (case cs of
           c1 # c2 # c3 # _ \<Rightarrow>
             if byte_in (if b = 0xF0 then 0x90 else 0x80) (if b = 0xF4 then 0x8F else 0xBF) c1
                \<and> byte_in 0x80 0xBF c2 \<and> byte_in 0x80 0xBF c3
             then 4 else 0
         | _ \<Rightarrow> 0)
      else 0)"

definition RuneError :: string where
  "RuneError = [CHR 0xEF, CHR 0xBF, CHR 0xBD]"

function coerceUTF8 :: "string \<Rightarrow> string" where
  "coerceUTF8 [] = []"
| "coerceUTF8 (c # cs) =
     (if utf8_width (c # cs) = 0 then RuneError @ coerceUTF8 cs
      else take (utf8_width (c # cs)) (c # cs) @ coerceUTF8 (drop (utf8_width (c # cs)) (c # cs)))"
  by pat_completeness auto
termination
  by (relation "measure length") (auto simp del: utf8_width.simps)

text \<open>\<^verbatim>\<open>utf8.ValidString\<close>: the string is a sequence of well-formed UTF-8 sequences.\<close>

function utf8_ValidString :: "string \<Rightarrow> bool" where
  "utf8_ValidString [] = True"
| "utf8_ValidString (c # cs) =
     (if utf8_width (c # cs) = 0 then False
      else utf8_ValidString (drop (utf8_width (c # cs)) (c # cs)))"
  by pat_completeness auto
termination
  by (relation "measure length") (auto simp del: utf8_width.simps)

subsection \<open>Writing: \<^verbatim>\<open>json.MarshalIndent\<close>\<close>

text \<open>
  A struct is written as an object with one member for each field that has a name in its
  \<^verbatim>\<open>json\<close> tag, in the order of the fields; the fields tagged \<^verbatim>\<open>json:"-"\<close> (\<open>Name\<close>,
  \<open>File\<close>, \<open>Matcher\<close>) and the embedded mutex, which has no exported field, are left out.
  A map is written as an object with its keys sorted, a slice as an array, a nil pointer as
  \<^verbatim>\<open>null\<close>. An empty map or slice is written here as \<^verbatim>\<open>{}\<close> or \<^verbatim>\<open>[]\<close>; the package
  writes \<^verbatim>\<open>null\<close> when it is nil, and reads either back as empty. \<open>entry m k\<close> is the Go
  expression \<^verbatim>\<open>m[k]\<close>. For these types marshalling has no way to fail.
\<close>

definition enc_string :: "string \<Rightarrow> json" where
  "enc_string s = JString (coerceUTF8 s)"

definition enc_int :: "goint \<Rightarrow> json" where
  "enc_int n = JInt (sint n)"

definition enc_strings :: "string list \<Rightarrow> json" where
  "enc_strings xs = JArray (map enc_string xs)"

definition entry :: "header \<Rightarrow> string \<Rightarrow> string list" where
  "entry m k = (case fmlookup m k of None \<Rightarrow> [] | Some xs \<Rightarrow> xs)"

definition enc_header :: "header \<Rightarrow> json" where
  "enc_header m =
     JObject (map (\<lambda>k. (coerceUTF8 k, enc_strings (entry m k))) (sorted_list_of_fset (fmdom m)))"

definition enc_Request :: "Request \<Rightarrow> json" where
  "enc_Request r =
     JObject [(''body'', enc_string (req_Body r)),
              (''form'', enc_header (req_Form r)),
              (''headers'', enc_header (req_Headers r)),
              (''url'', enc_string (req_URL r)),
              (''method'', enc_string (req_Method r))]"

definition enc_Response :: "Response \<Rightarrow> json" where
  "enc_Response r =
     JObject [(''body'', enc_string (resp_Body r)),
              (''headers'', enc_header (resp_Headers r)),
              (''status'', enc_string (resp_Status r)),
              (''code'', enc_int (resp_Code r))]"

definition enc_Interaction :: "Interaction \<Rightarrow> json" where
  "enc_Interaction i =
     JObject [(''request'', enc_Request (Request i)),
              (''response'', enc_Response (Response i))]"

definition enc_Interaction_ptr :: "Interaction option \<Rightarrow> json" where
  "enc_Interaction_ptr p = (case p of None \<Rightarrow> JNull | Some i \<Rightarrow> enc_Interaction i)"

definition enc_Cassette :: "Cassette \<Rightarrow> json" where
  "enc_Cassette c =
     JObject [(''version'', enc_int (Version c)),
              (''interactions'', JArray (map enc_Interaction_ptr (Interactions c)))]"

definition json_MarshalIndent :: "Cassette \<Rightarrow> error + bytes" where
  "json_MarshalIndent c = Inr (Document (enc_Cassette c))"

subsection \<open>Reading: \<^verbatim>\<open>json.Unmarshal\<close>\<close>

text \<open>
  \<^verbatim>\<open>Unmarshal\<close> decodes into the value it is given and "completes the unmarshaling as best
  it can": a JSON value that does not fit its target leaves the target as it is, the
  earliest such mismatch is what \<^verbatim>\<open>Unmarshal\<close> returns in the end (\<open>saveError\<close>), and
  decoding goes on. Every decoder below takes the JSON value and the target's present
  value and returns the target's new value with the error met, if any.
  \<^item> \<^verbatim>\<open>null\<close> leaves a string, an integer and a struct as they are, and makes a pointer, a
    map or a slice nil.
  \<^item> An integer field takes a number written as an integer of the 64-bit range.
  \<^item> The members of an object are taken in the order of the text. For a struct, a key
    addresses the field of that name, else the field whose name equals it under Unicode
    case folding (\<open>foldName\<close>: for names in lower-case ASCII, folding maps A to Z to a to z,
    U+017F to s and U+212A to k); a key that addresses no field is skipped. For a map, the
    value is decoded into a fresh element, which is then stored under the key.
  \<^item> Element \<open>i\<close> of an array is decoded into element \<open>i\<close> of the slice where the slice has
    one, else into a fresh zero element; the slice ends up as long as the array. (The spare
    capacity a Go slice may carry is not modelled.)
  \<^item> A non-null value for a pointer is decoded into what the pointer points to, a fresh
    zero value when the pointer is nil.
\<close>

definition saveError :: "error option \<Rightarrow> error option \<Rightarrow> error option" where
  "saveError saved err = (case saved of None \<Rightarrow> err | Some e \<Rightarrow> Some e)"

definition asciiLower :: "char \<Rightarrow> char" where
  "asciiLower c = (if byte_in 0x41 0x5A c then char_of (of_char c + (32::nat)) else c)"

function foldName :: "string \<Rightarrow> string" where
  "foldName [] = []"
| "foldName (c # cs) =
     (if c = CHR 0xC5 \<and> take 1 cs = [CHR 0xBF] then CHR ''s'' # foldName (drop 1 cs)
      else if c = CHR 0xE2 \<and> take 2 cs = [CHR 0x84, CHR 0xAA] then CHR ''k'' # foldName (drop 2 cs)
      else asciiLower c # foldName cs)"
  by pat_completeness auto
termination
  by (relation "measure length") auto

definition json_field :: "string list \<Rightarrow> string \<Rightarrow> string option" where
  "json_field names key =
     (if key \<in> set names then Some key
      else find (\<lambda>n. foldName n = foldName key) names)"

fun dec_string :: "json \<Rightarrow> string \<Rightarrow> string \<times> error option" where
  "dec_string (JString s) old = (s, None)"
| "dec_string JNull old = (old, None)"
| "dec_string _ old = (old, Some UnmarshalTypeError)"

fun dec_int :: "json \<Rightarrow> goint \<Rightarrow> goint \<times> error option" where
  "dec_int (JInt n) old =
     (if - (2 ^ 63) \<le> n \<and> n < 2 ^ 63 then (word_of_int n, None)
      else (old, Some UnmarshalTypeError))"
| "dec_int JNull old = (old, None)"
| "dec_int _ old = (old, Some UnmarshalTypeError)"

fun dec_elements :: "(json \<Rightarrow> 'a \<Rightarrow> 'a \<times> error option) \<Rightarrow> 'a \<Rightarrow> json list \<Rightarrow> 'a list \<Rightarrow> 'a list \<times> error option" where
  "dec_elements dec zero [] old = ([], None)"
| "dec_elements dec zero (j # js) old =
     (case dec j (case old of [] \<Rightarrow> zero | x # _ \<Rightarrow> x) of
        (y, e) \<Rightarrow>
          (case dec_elements dec zero js (tl old) of
             (ys, e') \<Rightarrow> (y # ys, saveError e e')))"

fun dec_strings :: "json \<Rightarrow> string list \<Rightarrow> string list \<times> error option" where
  "dec_strings (JArray js) old = dec_elements dec_string [] js old"
| "dec_strings JNull old = ([], None)"
| "dec_strings _ old = (old, Some UnmarshalTypeError)"

fun dec_entries :: "(string \<times> json) list \<Rightarrow> header \<Rightarrow> header \<times> error option" where
  "dec_entries [] m = (m, None)"
| "dec_entries ((k, v) # kvs) m =
     (case dec_strings v [] of
        (xs, e) \<Rightarrow>
          (case dec_entries kvs (fmupd k xs m) of
             (m', e') \<Rightarrow> (m', saveError e e')))"

fun dec_header :: "json \<Rightarrow> header \<Rightarrow> header \<times> error option" where
  "dec_header (JObject kvs) old = dec_entries kvs old"
| "dec_header JNull old = (fmempty, None)"
| "dec_header _ old = (old, Some UnmarshalTypeError)"

text \<open>
  A struct, given the names of its fields and \<open>store\<close>, which decodes a value into the
  field of a given name.
\<close>

fun dec_members :: "string list \<Rightarrow> (string \<Rightarrow> json \<Rightarrow> 'a \<Rightarrow> 'a \<times> error option) \<Rightarrow> (string \<times> json) list \<Rightarrow> 'a \<Rightarrow> 'a \<times> error option" where
  "dec_members names store [] x = (x, None)"
| "dec_members names store ((k, v) # kvs) x =
     (case json_field names k of
        None \<Rightarrow> dec_members names store kvs x
      | Some f \<Rightarrow>
          (case store f v x of
             (x', e) \<Rightarrow>
               (case dec_members names store kvs x' of
                  (x'', e') \<Rightarrow> (x'', saveError e e'))))"

fun dec_struct :: "string list \<Rightarrow> (string \<Rightarrow> json \<Rightarrow> 'a \<Rightarrow> 'a \<times> error option) \<Rightarrow> json \<Rightarrow> 'a \<Rightarrow> 'a \<times> error option" where
  "dec_struct names store (JObject kvs) x = dec_members names store kvs x"
| "dec_struct names store JNull x = (x, None)"
| "dec_struct names store _ x = (x, Some UnmarshalTypeError)"

definition store_Request :: "string \<Rightarrow> json \<Rightarrow> Request \<Rightarrow> Request \<times> error option" where
  "store_Request f v r =
     (if f = ''body'' then (case dec_string v (req_Body r) of (x, e) \<Rightarrow> (r\<lparr>req_Body := x\<rparr>, e))
      else if f = ''form'' then (case dec_header v (req_Form r) of (x, e) \<Rightarrow> (r\<lparr>req_Form := x\<rparr>, e))
      else if f = ''headers'' then (case dec_header v (req_Headers r) of (x, e) \<Rightarrow> (r\<lparr>req_Headers := x\<rparr>, e))
      else if f = ''url'' then (case dec_string v (req_URL r) of (x, e) \<Rightarrow> (r\<lparr>req_URL := x\<rparr>, e))
      else (case dec_string v (req_Method r) of (x, e) \<Rightarrow> (r\<lparr>req_Method := x\<rparr>, e)))"

definition dec_Request :: "json \<Rightarrow> Request \<Rightarrow> Request \<times> error option" where
  "dec_Request = dec_struct [''body'', ''form'', ''headers'', ''url'', ''method''] store_Request"

definition store_Response :: "string \<Rightarrow> json \<Rightarrow> Response \<Rightarrow> Response \<times> error option" where
  "store_Response f v r =
     (if f = ''body'' then (case dec_string v (resp_Body r) of (x, e) \<Rightarrow> (r\<lparr>resp_Body := x\<rparr>, e))
      else if f = ''headers'' then (case dec_header v (resp_Headers r) of (x, e) \<Rightarrow> (r\<lparr>resp_Headers := x\<rparr>, e))
      else if f = ''status'' then (case dec_string v (resp_Status r) of (x, e) \<Rightarrow> (r\<lparr>resp_Status := x\<rparr>, e))
      else (case dec_int v (resp_Code r) of (x, e) \<Rightarrow> (r\<lparr>resp_Code := x\<rparr>, e)))"

definition dec_Response :: "json \<Rightarrow> Response \<Rightarrow> Response \<times> error option" where
  "dec_Response = dec_struct [''body'', ''headers'', ''status'', ''code''] store_Response"

definition store_Interaction :: "string \<Rightarrow> json \<Rightarrow> Interaction \<Rightarrow> Interaction \<times> error option" where
  "store_Interaction f v i =
     (if f = ''request'' then (case dec_Request v (Request i) of (x, e) \<Rightarrow> (i\<lparr>Request := x\<rparr>, e))
      else (case dec_Response v (Response i) of (x, e) \<Rightarrow> (i\<lparr>Response := x\<rparr>, e)))"

definition dec_Interaction :: "json \<Rightarrow> Interaction \<Rightarrow> Interaction \<times> error option" where
  "dec_Interaction = dec_struct [''request'', ''response''] store_Interaction"

definition zero_Interaction :: Interaction where
  "zero_Interaction =
     \<lparr> Request = \<lparr> req_Body = [], req_Form = fmempty, req_Headers = fmempty,
                   req_URL = [], req_Method = [] \<rparr>,
       Response = \<lparr> resp_Body = [], resp_Headers = fmempty, resp_Status = [], resp_Code = 0 \<rparr> \<rparr>"

definition dec_Interaction_ptr :: "json \<Rightarrow> Interaction option \<Rightarrow> Interaction option \<times> error option" where
  "dec_Interaction_ptr v p =
     (case v of
        JNull \<Rightarrow> (None, None)
      | _ \<Rightarrow>
          (case dec_Interaction v (case p of None \<Rightarrow> zero_Interaction | Some i \<Rightarrow> i) of
             (i', e) \<Rightarrow> (Some i', e)))"

fun dec_Interactions :: "json \<Rightarrow> Interaction option list \<Rightarrow> Interaction option list \<times> error option" where
  "dec_Interactions (JArray js) old = dec_elements dec_Interaction_ptr None js old"
| "dec_Interactions JNull old = ([], None)"
| "dec_Interactions _ old = (old, Some UnmarshalTypeError)"

definition store_Cassette :: "string \<Rightarrow> json \<Rightarrow> Cassette \<Rightarrow> Cassette \<times> error option" where
  "store_Cassette f v c =
     (if f = ''version'' then (case dec_int v (Version c) of (x, e) \<Rightarrow> (c\<lparr>Version := x\<rparr>, e))
      else (case dec_Interactions v (Interactions c) of (x, e) \<Rightarrow> (c\<lparr>Interactions := x\<rparr>, e)))"

definition dec_Cassette :: "json \<Rightarrow> Cassette \<Rightarrow> Cassette \<times> error option" where
  "dec_Cassette = dec_struct [''version'', ''interactions''] store_Cassette"

text \<open>
  \<^verbatim>\<open>json.Unmarshal(data, &c)\<close> for a non-nil \<^verbatim>\<open>c *Cassette\<close>: the pointer \<open>c\<close> as the
  call leaves it (\<open>None\<close> for nil) and the error returned. Text that is not well-formed is
  refused before anything is decoded. The target is the pointer itself, so the document
  \<^verbatim>\<open>null\<close> makes it nil, without an error.
\<close>

definition json_Unmarshal :: "bytes \<Rightarrow> Cassette \<Rightarrow> Cassette option \<times> error option" where
  "json_Unmarshal data c =
     (case data of
        Malformed \<Rightarrow> (Some c, Some SyntaxError)
      | Document JNull \<Rightarrow> (None, None)
      | Document v \<Rightarrow> (case dec_Cassette v c of (c', e) \<Rightarrow> (Some c', e)))"

subsection \<open>The file system\<close>

text \<open>
  The state the calls into \<^verbatim>\<open>os\<close> and \<^verbatim>\<open>io/ioutil\<close> act on: the contents of the files
  by path, the paths that are directories, the calls the operating system refuses
  (permissions, a missing parent directory, a full disk: any call may fail), and the calls
  made so far, oldest first. Every call is entered in \<open>calls\<close>, also one that only reads.
  A file just created is empty, which is not a JSON value. A refused write leaves the file
  as \<open>os_Create\<close> left it. \<^verbatim>\<open>os.MkdirAll\<close> adds the directory; the parents it creates
  on the way are not listed, since nothing here looks at them.
\<close>

record filesystem =
  files :: "string \<rightharpoonup> bytes"
  dirs :: "string set"
  refuses :: "fs_op \<Rightarrow> bool"
  calls :: "fs_op list"

definition called :: "fs_op \<Rightarrow> filesystem \<Rightarrow> filesystem" where
  "called op fs = fs\<lparr>calls := calls fs @ [op]\<rparr>"

definition ioutil_ReadFile :: "string \<Rightarrow> filesystem \<Rightarrow> (error + bytes) \<times> filesystem" where
  "ioutil_ReadFile p fs =
     (if refuses fs (OpReadFile p) then (Inl (PathError (OpReadFile p)), called (OpReadFile p) fs)
      else case files fs p of
             None \<Rightarrow> (Inl ErrNotExist, called (OpReadFile p) fs)
           | Some data \<Rightarrow> (Inr data, called (OpReadFile p) fs))"

definition os_Stat :: "string \<Rightarrow> filesystem \<Rightarrow> error option \<times> filesystem" where
  "os_Stat p fs =
     (if refuses fs (OpStat p) then (Some (PathError (OpStat p)), called (OpStat p) fs)
      else if p \<in> dirs fs \<or> files fs p \<noteq> None then (None, called (OpStat p) fs)
      else (Some ErrNotExist, called (OpStat p) fs))"

definition os_IsNotExist :: "error option \<Rightarrow> bool" where
  "os_IsNotExist err = (err = Some ErrNotExist)"

definition os_MkdirAll :: "string \<Rightarrow> filesystem \<Rightarrow> error option \<times> filesystem" where
  "os_MkdirAll p fs =
     (if refuses fs (OpMkdirAll p) \<or> files fs p \<noteq> None
      then (Some (PathError (OpMkdirAll p)), called (OpMkdirAll p) fs)
      else (None, called (OpMkdirAll p) (fs\<lparr>dirs := insert p (dirs fs)\<rparr>)))"

text \<open>\<^verbatim>\<open>os.Create\<close> returns the open file, which is known here by its path.\<close>

definition os_Create :: "string \<Rightarrow> filesystem \<Rightarrow> (error + string) \<times> filesystem" where
  "os_Create p fs =
     (if refuses fs (OpCreate p) \<or> p \<in> dirs fs
      then (Inl (PathError (OpCreate p)), called (OpCreate p) fs)
      else (Inr p, called (OpCreate p) (fs\<lparr>files := (files fs)(p \<mapsto> Malformed)\<rparr>)))"

definition File_Write :: "string \<Rightarrow> bytes \<Rightarrow> filesystem \<Rightarrow> error option \<times> filesystem" where
  "File_Write f data fs =
     (if refuses fs (OpWrite f) then (Some (PathError (OpWrite f)), called (OpWrite f) fs)
      else (None, called (OpWrite f) (fs\<lparr>files := (files fs)(f \<mapsto> data)\<rparr>)))"

definition File_Close :: "string \<Rightarrow> filesystem \<Rightarrow> filesystem" where
  "File_Close f fs = called (OpClose f) fs"

section \<open>Load and Save\<close>

text \<open>
  \<^verbatim>\<open>func Load(name string) (*Cassette, error) {
      c := New(name)
      data, err := ioutil.ReadFile(c.File)
      if err != nil { return nil, err }
      err = json.Unmarshal(data, &c)
      return c, err }\<close>
  The result is the pair returned (\<open>None\<close> for a nil cassette, \<open>None\<close> for a nil error)
  and the file system as the call leaves it.
\<close>

definition Load :: "string \<Rightarrow> filesystem \<Rightarrow> (Cassette option \<times> error option) \<times> filesystem" where
  "Load name fs =
     (let c = New name in
      case ioutil_ReadFile (File c) fs of
        (Inl err, fs') \<Rightarrow> ((None, Some err), fs')
      | (Inr data, fs') \<Rightarrow> (json_Unmarshal data c, fs'))"

text \<open>
  The second half of \<open>Save\<close>, from \<^verbatim>\<open>json.MarshalIndent\<close> on:
  \<^verbatim>\<open>data, err := json.MarshalIndent(c, "", "  ")
  if err != nil { return err }
  f, err := os.Create(c.File)
  if err != nil { return err }
  defer f.Close()
  _, err = f.Write(data)
  if err != nil { return err }
  return nil\<close>
\<close>

definition Save_write :: "Cassette \<Rightarrow> filesystem \<Rightarrow> error option \<times> filesystem" where
  "Save_write c fs =
     (case json_MarshalIndent c of
        Inl err \<Rightarrow> (Some err, fs)
      | Inr data \<Rightarrow>
          (case os_Create (File c) fs of
             (Inl err, fs') \<Rightarrow> (Some err, fs')
           | (Inr f, fs') \<Rightarrow>
               (case File_Write f data fs' of
                  (Some err, fs'') \<Rightarrow> (Some err, File_Close f fs'')
                | (None, fs'') \<Rightarrow> (None, File_Close f fs''))))"

text \<open>
  \<^verbatim>\<open>func (c *Cassette) Save() error {
      if len(c.Interactions) == 0 { return nil }
      cassetteDir := filepath.Dir(c.File)
      if _, err := os.Stat(cassetteDir); os.IsNotExist(err) {
          if err = os.MkdirAll(cassetteDir, 0755); err != nil { return err } }
      ... }\<close>
  \<^verbatim>\<open>filepath.Dir\<close> is a parameter: what is proved holds however it splits a path.
\<close>

definition Save :: "(string \<Rightarrow> string) \<Rightarrow> Cassette \<Rightarrow> filesystem \<Rightarrow> error option \<times> filesystem" where
  "Save filepath_Dir c fs =
     (if length (Interactions c) = 0 then (None, fs)
      else
        let cassetteDir = filepath_Dir (File c) in
        case os_Stat cassetteDir fs of
          (err, fs') \<Rightarrow>
            if os_IsNotExist err then
              (case os_MkdirAll cassetteDir fs' of
                 (Some err', fs'') \<Rightarrow> (Some err', fs'')
               | (None, fs'') \<Rightarrow> Save_write c fs'')
            else Save_write c fs')"

subsection \<open>Cassettes whose strings are valid UTF-8\<close>

definition utf8_header :: "header \<Rightarrow> bool" where
  "utf8_header m = fmpred (\<lambda>k xs. utf8_ValidString k \<and> list_all utf8_ValidString xs) m"

definition utf8_Request :: "Request \<Rightarrow> bool" where
  "utf8_Request r =
     (utf8_ValidString (req_Body r) \<and> utf8_header (req_Form r) \<and> utf8_header (req_Headers r)
      \<and> utf8_ValidString (req_URL r) \<and> utf8_ValidString (req_Method r))"

definition utf8_Response :: "Response \<Rightarrow> bool" where
  "utf8_Response r =
     (utf8_ValidString (resp_Body r) \<and> utf8_header (resp_Headers r)
      \<and> utf8_ValidString (resp_Status r))"

definition utf8_Interaction :: "Interaction option \<Rightarrow> bool" where
  "utf8_Interaction p =
     (case p of None \<Rightarrow> True | Some i \<Rightarrow> utf8_Request (Request i) \<and> utf8_Response (Response i))"

definition utf8_Cassette :: "Cassette \<Rightarrow> bool" where
  "utf8_Cassette c = list_all utf8_Interaction (Interactions c)"

section \<open>Examples\<close>

subsection \<open>The exchange of example/simple_test.go\<close>

text \<open>
  \<open>TestSimple\<close> replays the fixture \<^verbatim>\<open>fixtures/golang-org\<close>: a GET of
  \<^verbatim>\<open>http://golang.org/\<close> is answered from the cassette, and a second, identical GET is
  expected to fail with \<open>ErrInteractionNotFound\<close>.
\<close>

definition golang_request :: http_Request where
  "golang_request =
     \<lparr> http_Method = ''GET'', http_URL = ''http://golang.org/'',
       http_Header = fmempty, http_Form = fmempty, http_Body = [] \<rparr>"

definition golang_interaction :: Interaction where
  "golang_interaction =
     \<lparr> Request =
         \<lparr> req_Body = [], req_Form = fmempty,
           req_Headers = fmupd ''Accept-Encoding'' [''gzip''] fmempty,
           req_URL = ''http://golang.org/'', req_Method = ''GET'' \<rparr>,
       Response =
         \<lparr> resp_Body = ''<title>The Go Programming Language</title>'',
           resp_Headers = fmupd ''Content-Type'' [''text/html; charset=utf-8''] fmempty,
           resp_Status = ''200 OK'', resp_Code = 200 \<rparr> \<rparr>"

definition golang_cassette :: Cassette where
  "golang_cassette = AddInteraction (New ''fixtures/golang-org'') (Some golang_interaction)"

subsection \<open>Fixtures on disk\<close>

text \<open>
  A file system with the current directory and nothing else, on which no call is refused;
  \<^verbatim>\<open>filepath.Dir\<close> on the paths used below, all of them files of \<^verbatim>\<open>fixtures\<close>; and the
  file system after the cassette of \<open>TestSimple\<close> has been saved there.
\<close>

definition empty_fs :: filesystem where
  "empty_fs = \<lparr> files = Map.empty, dirs = {''.''}, refuses = (\<lambda>_. False), calls = [] \<rparr>"

definition fixtures_Dir :: "string \<Rightarrow> string" where
  "fixtures_Dir path = ''fixtures''"

definition golang_fs :: filesystem where
  "golang_fs = snd (Save fixtures_Dir golang_cassette empty_fs)"

text \<open>The same cassette under a matcher that also compares the bodies.\<close>

definition strict_cassette :: Cassette where
  "strict_cassette =
     golang_cassette\<lparr>Matcher := (\<lambda>r i. DefaultMatcher r i \<and> http_Body r = req_Body i)\<rparr>"

text \<open>A recorded download whose body is the single byte FF, which is not valid UTF-8.\<close>

definition binary_interaction :: Interaction where
  "binary_interaction =
     \<lparr> Request =
         \<lparr> req_Body = [], req_Form = fmempty, req_Headers = fmempty,
           req_URL = ''http://golang.org/favicon.ico'', req_Method = ''GET'' \<rparr>,
       Response =
         \<lparr> resp_Body = [CHR 0xFF], resp_Headers = fmempty,
           resp_Status = ''200 OK'', resp_Code = 200 \<rparr> \<rparr>"

definition binary_cassette :: Cassette where
  "binary_cassette = AddInteraction (New ''fixtures/favicon'') (Some binary_interaction)"

text \<open>A fixture of format version 2 holding the recorded GET.\<close>

definition v2_document :: json where
  "v2_document =
     JObject [(''version'', JInt 2),
              (''interactions'', JArray [enc_Interaction golang_interaction])]"

definition v2_fs :: filesystem where
  "v2_fs = empty_fs\<lparr>files := [''fixtures/v2.json'' \<mapsto> Document v2_document]\<rparr>"

text \<open>A fixture whose array of interactions holds \<^verbatim>\<open>null\<close>, and the cassette it loads as.\<close>

definition null_entry_fs :: filesystem where
  "null_entry_fs =
     empty_fs\<lparr>files :=
       [''fixtures/null.json'' \<mapsto>
          Document (JObject [(''version'', JInt 1), (''interactions'', JArray [JNull])])]\<rparr>"

definition null_entry_cassette :: Cassette where
  "null_entry_cassette = AddInteraction (New ''fixtures/null'') None"

text \<open>
  Two fixtures that do not decode: one that is not JSON, one whose \<^verbatim>\<open>interactions\<close> is a
  string.
\<close>

definition broken_fs :: filesystem where
  "broken_fs =
     empty_fs\<lparr>files :=
       [''fixtures/broken.json'' \<mapsto> Malformed,
        ''fixtures/mistyped.json'' \<mapsto>
           Document (JObject [(''version'', JInt 7), (''interactions'', JString ''none'')])]\<rparr>"

section \<open>Properties\<close>

subsection \<open>What is written is read back\<close>

lemma coerceUTF8_valid: "utf8_ValidString s \<Longrightarrow> coerceUTF8 s = s"
proof (induction s rule: coerceUTF8.induct)
  case 1
  then show ?case by simp
next
  case (2 c cs)
  then show ?case
    by (cases "utf8_width (c # cs) = 0") (simp_all del: utf8_width.simps)
qed

lemma dec_string_enc: "utf8_ValidString s \<Longrightarrow> dec_string (enc_string s) old = (s, None)"
  by (simp add: enc_string_def coerceUTF8_valid)

lemma dec_elements_strings:
  "list_all utf8_ValidString xs \<Longrightarrow>
   dec_elements dec_string [] (map enc_string xs) old = (xs, None)"
  by (induction xs arbitrary: old) (simp_all add: dec_string_enc saveError_def)

lemma dec_strings_enc:
  "list_all utf8_ValidString xs \<Longrightarrow> dec_strings (enc_strings xs) old = (xs, None)"
  by (simp add: enc_strings_def dec_elements_strings)

lemma dec_int_enc: "dec_int (enc_int n) old = (n, None)"
proof -
  have "- (2 ^ 63) \<le> sint n" "sint n < 2 ^ 63"
    using sint_ge [of n] sint_lt [of n] by simp_all
  then show ?thesis by (simp add: enc_int_def)
qed

lemma dec_entries_enc:
  "\<forall>k \<in> set ks. utf8_ValidString k \<and> list_all utf8_ValidString (entry m k) \<Longrightarrow>
   dec_entries (map (\<lambda>k. (coerceUTF8 k, enc_strings (entry m k))) ks) m0
     = (fold (\<lambda>k. fmupd k (entry m k)) ks m0, None)"
  by (induction ks arbitrary: m0) (simp_all add: coerceUTF8_valid dec_strings_enc saveError_def)

lemma fmlookup_fold_fmupd:
  "fmlookup (fold (\<lambda>k. fmupd k (f k)) ks m0) x
     = (if x \<in> set ks then Some (f x) else fmlookup m0 x)"
  by (induction ks arbitrary: m0) auto

lemma fold_entries_all:
  "fold (\<lambda>k. fmupd k (entry m k)) (sorted_list_of_fset (fmdom m)) fmempty = m"
proof (rule fmap_ext)
  fix x
  show "fmlookup (fold (\<lambda>k. fmupd k (entry m k)) (sorted_list_of_fset (fmdom m)) fmempty) x
          = fmlookup m x"
    by (cases "fmlookup m x") (auto simp: fmlookup_fold_fmupd entry_def fmlookup_dom_iff)
qed

lemma dec_header_enc:
  assumes "utf8_header m"
  shows "dec_header (enc_header m) fmempty = (m, None)"
proof -
  have "\<forall>k \<in> set (sorted_list_of_fset (fmdom m)).
          utf8_ValidString k \<and> list_all utf8_ValidString (entry m k)"
    using assms by (auto simp: utf8_header_def fmpred_iff entry_def fmlookup_dom_iff)
  from dec_entries_enc [OF this, of fmempty]
  show ?thesis
    by (simp add: enc_header_def fold_entries_all)
qed

lemma dec_Request_enc:
  assumes "utf8_Request r"
  shows "dec_Request (enc_Request r) (Request zero_Interaction) = (r, None)"
  using assms
  by (simp add: utf8_Request_def dec_Request_def enc_Request_def json_field_def store_Request_def
      zero_Interaction_def dec_string_enc dec_header_enc saveError_def)

lemma dec_Response_enc:
  assumes "utf8_Response r"
  shows "dec_Response (enc_Response r) (Response zero_Interaction) = (r, None)"
  using assms
  by (simp add: utf8_Response_def dec_Response_def enc_Response_def json_field_def store_Response_def
      zero_Interaction_def dec_string_enc dec_header_enc dec_int_enc saveError_def)

lemma dec_Interaction_enc:
  assumes "utf8_Request (Request i)" "utf8_Response (Response i)"
  shows "dec_Interaction (enc_Interaction i) zero_Interaction = (i, None)"
  using assms
  by (simp add: dec_Interaction_def enc_Interaction_def json_field_def store_Interaction_def
      dec_Request_enc dec_Response_enc saveError_def)

lemma dec_Interaction_ptr_enc:
  assumes "utf8_Interaction p"
  shows "dec_Interaction_ptr (enc_Interaction_ptr p) None = (p, None)"
proof (cases p)
  case None
  then show ?thesis by (simp add: dec_Interaction_ptr_def enc_Interaction_ptr_def)
next
  case (Some i)
  with assms have "dec_Interaction (enc_Interaction i) zero_Interaction = (i, None)"
    by (simp add: utf8_Interaction_def dec_Interaction_enc)
  with Some show ?thesis
    by (simp add: dec_Interaction_ptr_def enc_Interaction_ptr_def enc_Interaction_def)
qed

lemma dec_elements_Interactions:
  "list_all utf8_Interaction ps \<Longrightarrow>
   dec_elements dec_Interaction_ptr None (map enc_Interaction_ptr ps) [] = (ps, None)"
  by (induction ps) (simp_all add: dec_Interaction_ptr_enc saveError_def)

lemma dec_Cassette_enc:
  assumes "utf8_Cassette c"
  shows "dec_Cassette (enc_Cassette c) (New name)
           = (c\<lparr>Name := name, File := name @ ''.json'', Matcher := DefaultMatcher\<rparr>, None)"
  using assms
  by (simp add: utf8_Cassette_def dec_Cassette_def enc_Cassette_def json_field_def
      store_Cassette_def dec_int_enc dec_elements_Interactions saveError_def New_def)

subsection \<open>What decoding leaves alone\<close>

lemma dec_members_keeps:
  assumes "\<And>f v x. g (fst (store f v x)) = g x"
  shows "g (fst (dec_members names store kvs x)) = g x"
proof (induction kvs arbitrary: x)
  case Nil
  then show ?case by simp
next
  case (Cons kv kvs)
  obtain k v where kv: "kv = (k, v)" by (cases kv)
  show ?case
  proof (cases "json_field names k")
    case None
    with kv Cons show ?thesis by simp
  next
    case (Some f)
    have "g (fst (dec_members names store kvs (fst (store f v x)))) = g x"
      using Cons [of "fst (store f v x)"] assms [of f v x] by simp
    with kv Some show ?thesis by (auto split: prod.splits)
  qed
qed

lemma dec_struct_keeps:
  assumes "\<And>f v x. g (fst (store f v x)) = g x"
  shows "g (fst (dec_struct names store j x)) = g x"
  using dec_members_keeps [of g store, OF assms] by (cases j) simp_all

lemma dec_Cassette_keeps:
  "Name (fst (dec_Cassette j c)) = Name c"
  "File (fst (dec_Cassette j c)) = File c"
  "Matcher (fst (dec_Cassette j c)) = Matcher c"
  unfolding dec_Cassette_def
  by (rule dec_struct_keeps, simp add: store_Cassette_def split: prod.splits)+

lemma json_Unmarshal_keeps:
  assumes "fst (json_Unmarshal data c) = Some c'"
  shows "Name c' = Name c \<and> File c' = File c \<and> Matcher c' = Matcher c"
proof (cases data)
  case Malformed
  with assms show ?thesis by (simp add: json_Unmarshal_def)
next
  case (Document j)
  with assms have "c' = fst (dec_Cassette j c)"
    by (cases j) (auto simp: json_Unmarshal_def split: prod.splits)
  then show ?thesis by (simp add: dec_Cassette_keeps)
qed

lemma json_Unmarshal_error_cassette:
  assumes "snd (json_Unmarshal data c) = Some e"
  shows "\<exists>c'. fst (json_Unmarshal data c) = Some c'"
proof (cases data)
  case Malformed
  then show ?thesis by (simp add: json_Unmarshal_def)
next
  case (Document j)
  with assms show ?thesis
    by (cases j) (auto simp: json_Unmarshal_def split: prod.splits)
qed

subsection \<open>Saving and loading\<close>

lemma Save_write_success:
  assumes "Save_write c fs = (None, fs')"
  shows "files fs' (File c) = Some (Document (enc_Cassette c)) \<and> refuses fs' = refuses fs"
  using assms
  by (auto simp: Save_write_def json_MarshalIndent_def os_Create_def File_Write_def
      File_Close_def called_def split: if_splits)

lemma Save_success:
  assumes "Interactions c \<noteq> []" "Save d c fs = (None, fs')"
  shows "files fs' (File c) = Some (Document (enc_Cassette c)) \<and> refuses fs' = refuses fs"
proof -
  from assms obtain fs0 where w: "Save_write c fs0 = (None, fs')" and r: "refuses fs0 = refuses fs"
    by (auto simp: Save_def Let_def os_Stat_def os_MkdirAll_def called_def
        split: if_splits prod.splits option.splits)
  from Save_write_success [OF w] r show ?thesis by simp
qed

lemma Load_cases:
  "fst (Load name fs) =
     (case fst (ioutil_ReadFile (name @ ''.json'') fs) of
        Inl err \<Rightarrow> (None, Some err)
      | Inr data \<Rightarrow> json_Unmarshal data (New name))"
  by (simp add: Load_def New_def split: prod.splits sum.splits)

lemma Load_read:
  assumes "files fs (name @ ''.json'') = Some data" "\<not> refuses fs (OpReadFile (name @ ''.json''))"
  shows "fst (Load name fs) = json_Unmarshal data (New name)"
  using assms by (simp add: Load_cases ioutil_ReadFile_def)

lemma Load_after_Save:
  assumes "Interactions c \<noteq> []" "File c = Name c @ ''.json''" "utf8_Cassette c"
    and "Save d c fs = (None, fs')" "\<not> refuses fs (OpReadFile (File c))"
  shows "fst (Load (Name c) fs') = (Some (c\<lparr>Matcher := DefaultMatcher\<rparr>), None)"
proof -
  from Save_success [OF assms(1) assms(4)]
  have f: "files fs' (Name c @ ''.json'') = Some (Document (enc_Cassette c))"
    and r: "\<not> refuses fs' (OpReadFile (Name c @ ''.json''))"
    using assms(2) assms(5) by simp_all
  have "json_Unmarshal (Document (enc_Cassette c)) (New (Name c))
          = (Some (c\<lparr>Matcher := DefaultMatcher\<rparr>), None)"
    using dec_Cassette_enc [OF assms(3), of "Name c"] assms(2)
    by (simp add: json_Unmarshal_def) (simp add: enc_Cassette_def)
  with Load_read [OF f r] show ?thesis by simp
qed

subsection \<open>The examples\<close>

lemma sorted_list_of_fset_empty: "sorted_list_of_fset {||} = []"
  by (simp add: sorted_list_of_fset.rep_eq)

lemma utf8_golang_interaction: "utf8_Interaction (Some golang_interaction)"
  by (simp add: utf8_Interaction_def golang_interaction_def utf8_Request_def utf8_Response_def
      utf8_header_def fmpred_upd)

lemma dec_golang_interaction:
  "dec_Interaction_ptr (enc_Interaction golang_interaction) None = (Some golang_interaction, None)"
  using dec_Interaction_ptr_enc [OF utf8_golang_interaction] by (simp add: enc_Interaction_ptr_def)

lemmas Save_defs =
  Save_def Let_def os_Stat_def os_MkdirAll_def os_IsNotExist_def Save_write_def
  json_MarshalIndent_def os_Create_def File_Write_def File_Close_def called_def

lemma Save_golang: "Save fixtures_Dir golang_cassette empty_fs = (None, golang_fs)"
  by (simp add: golang_fs_def prod_eq_iff golang_cassette_def AddInteraction_def New_def
      Save_defs empty_fs_def fixtures_Dir_def)

lemma golang_fs_fixture:
  "files golang_fs ''fixtures/golang-org.json'' = Some (Document (enc_Cassette golang_cassette))"
  using Save_success [OF _ Save_golang]
  by (simp add: golang_cassette_def AddInteraction_def New_def)

lemma Save_strict:
  "Save fixtures_Dir strict_cassette empty_fs
     = (None, snd (Save fixtures_Dir strict_cassette empty_fs))"
  by (simp add: prod_eq_iff strict_cassette_def golang_cassette_def AddInteraction_def New_def
      Save_defs empty_fs_def fixtures_Dir_def)

lemma Load_strict:
  "fst (Load ''fixtures/golang-org'' (snd (Save fixtures_Dir strict_cassette empty_fs)))
     = (Some golang_cassette, None)"
proof -
  have "fst (Load (Name strict_cassette) (snd (Save fixtures_Dir strict_cassette empty_fs)))
          = (Some (strict_cassette\<lparr>Matcher := DefaultMatcher\<rparr>), None)"
    using utf8_golang_interaction
    by (intro Load_after_Save [OF _ _ _ Save_strict])
       (simp_all add: strict_cassette_def golang_cassette_def AddInteraction_def New_def
         utf8_Cassette_def empty_fs_def)
  then show ?thesis
    by (simp add: strict_cassette_def golang_cassette_def AddInteraction_def New_def)
qed

subsection \<open>Looking up\<close>

lemma GetInteraction_keeps_cassette: "snd (GetInteraction c r) = c"
  by (simp add: GetInteraction_def)

lemma GetInteraction_loop_rejected:
  "(\<forall>e \<in> set is. \<exists>i. e = Some i \<and> \<not> m r (Request i)) \<Longrightarrow>
   GetInteraction_loop m r is = Inl ErrInteractionNotFound"
  by (induction "is") auto

text \<open>
  C1. The claim: the lookup removes the first interaction the matcher accepts, so that
  after one successful lookup of a request matched by exactly one stored interaction a
  second, identical lookup fails with \<open>ErrInteractionNotFound\<close>. The code returns the
  interaction and leaves it in the sequence: on the cassette of \<open>TestSimple\<close>, holding the
  one recorded GET, the first lookup returns the interaction, the cassette is as it was,
  and the second lookup returns the same interaction again.
\<close>

theorem GetInteraction_second_lookup_succeeds:
  "fst (GetInteraction golang_cassette golang_request) = Inr golang_interaction
   \<and> snd (GetInteraction golang_cassette golang_request) = golang_cassette
   \<and> Interactions golang_cassette = [Some golang_interaction]
   \<and> fst (GetInteraction (snd (GetInteraction golang_cassette golang_request)) golang_request)
       = Inr golang_interaction"
  by (simp add: GetInteraction_def golang_cassette_def AddInteraction_def New_def
      DefaultMatcher_def golang_request_def golang_interaction_def)

text \<open>
  C2. \<open>DefaultMatcher r i\<close> holds exactly when the two method strings are equal and the
  URL string of \<open>r\<close> equals the URL string of \<open>i\<close>; replacing the headers, the form values
  and the body of either request does not change the result.
\<close>

theorem DefaultMatcher_method_and_url_only:
  "DefaultMatcher r i = (http_Method r = req_Method i \<and> http_URL r = req_URL i)
   \<and> DefaultMatcher (r\<lparr>http_Header := h, http_Form := f, http_Body := b\<rparr>)
        (i\<lparr>req_Headers := h', req_Form := f', req_Body := b'\<rparr>)
      = DefaultMatcher r i"
  by (simp add: DefaultMatcher_def)

text \<open>
  C6. The claim: for every cassette and every request for which the matcher accepts no
  interaction of the sequence, the lookup fails with \<open>ErrInteractionNotFound\<close> and leaves
  the sequence as it was. It fails for a sequence with a nil entry. The fixture whose
  array of interactions is \<^verbatim>\<open>[null]\<close> loads without an error as the cassette that
  \<^verbatim>\<open>AddInteraction(nil)\<close> builds; no interaction of it is accepted, it has none, and the
  lookup panics on reading the request through the nil pointer.
\<close>

theorem GetInteraction_nil_entry_counterexample:
  "fst (Load ''fixtures/null'' null_entry_fs) = (Some null_entry_cassette, None)
   \<and> Interactions null_entry_cassette = [None]
   \<and> \<not> (\<exists>i. Some i \<in> set (Interactions null_entry_cassette)
            \<and> Matcher null_entry_cassette golang_request (Request i))
   \<and> GetInteraction null_entry_cassette golang_request
       = (Inl NilPointerDereference, null_entry_cassette)
   \<and> fst (GetInteraction null_entry_cassette golang_request) \<noteq> Inl ErrInteractionNotFound"
  by (simp add: Load_cases ioutil_ReadFile_def null_entry_fs_def empty_fs_def
      json_Unmarshal_def dec_Cassette_def json_field_def store_Cassette_def saveError_def
      dec_Interaction_ptr_def null_entry_cassette_def AddInteraction_def New_def
      cassetteFormatV1_def GetInteraction_def)

text \<open>
  C6, amended. When every entry of the sequence is an interaction, none of them nil, whose
  recorded request the active matcher rejects, the lookup fails with
  \<open>ErrInteractionNotFound\<close> and the cassette, its sequence included, is exactly what it
  was before the call.
\<close>

theorem GetInteraction_not_found:
  assumes "\<forall>e \<in> set (Interactions c). \<exists>i. e = Some i \<and> \<not> Matcher c r (Request i)"
  shows "GetInteraction c r = (Inl ErrInteractionNotFound, c)"
  using assms by (simp add: GetInteraction_def GetInteraction_loop_rejected)

theorem GetInteraction_not_found_witness:
  "GetInteraction golang_cassette (golang_request\<lparr>http_Method := ''POST''\<rparr>)
     = (Inl ErrInteractionNotFound, golang_cassette)
   \<and> Interactions golang_cassette = [Some golang_interaction]"
proof -
  have "\<forall>e \<in> set (Interactions golang_cassette).
          \<exists>i. e = Some i
            \<and> \<not> Matcher golang_cassette (golang_request\<lparr>http_Method := ''POST''\<rparr>) (Request i)"
    by (simp add: golang_cassette_def AddInteraction_def New_def DefaultMatcher_def
        golang_request_def golang_interaction_def)
  from GetInteraction_not_found [OF this]
  show ?thesis
    by (simp add: golang_cassette_def AddInteraction_def New_def)
qed

lemma GetInteraction_times_repeats:
  "GetInteraction_times n c r = (replicate n (fst (GetInteraction c r)), c)"
  by (induction n) (simp_all add: GetInteraction_def)

text \<open>
  C9. The claim: with exactly M interactions matching a request and N > M lookups of it
  running at the same time, exactly M lookups succeed, N - M fail with
  \<open>ErrInteractionNotFound\<close>, and no interaction is claimed twice. Served one after the
  other, which is one way callers running at the same time may be served, every one of
  the N lookups succeeds: on the cassette of \<open>TestSimple\<close>, where exactly one interaction
  matches the request, N lookups return that same interaction N times and leave the
  cassette as it was. For N = 2 both succeed, none fails, and the one interaction is
  claimed twice.
\<close>

theorem GetInteraction_times_all_succeed:
  "length (filter (\<lambda>e. case e of None \<Rightarrow> False
                          | Some i \<Rightarrow> Matcher golang_cassette golang_request (Request i))
             (Interactions golang_cassette)) = 1
   \<and> GetInteraction_times N golang_cassette golang_request
       = (replicate N (Inr golang_interaction), golang_cassette)
   \<and> GetInteraction_times 2 golang_cassette golang_request
       = ([Inr golang_interaction, Inr golang_interaction], golang_cassette)"
proof -
  have g: "fst (GetInteraction golang_cassette golang_request) = Inr golang_interaction"
    by (simp add: GetInteraction_def golang_cassette_def AddInteraction_def New_def
        DefaultMatcher_def golang_request_def golang_interaction_def)
  have m: "length (filter (\<lambda>e. case e of None \<Rightarrow> False
                          | Some i \<Rightarrow> Matcher golang_cassette golang_request (Request i))
             (Interactions golang_cassette)) = 1"
    by (simp add: golang_cassette_def AddInteraction_def New_def
        DefaultMatcher_def golang_request_def golang_interaction_def)
  have "replicate 2 (Inr golang_interaction :: error + Interaction)
          = [Inr golang_interaction, Inr golang_interaction]"
    by (simp add: numeral_2_eq_2)
  with g m show ?thesis
    by (simp add: GetInteraction_times_repeats)
qed

subsection \<open>Creating\<close>

text \<open>
  C7. \<open>New name\<close> is the cassette with format version 1, an empty interaction sequence,
  the default matcher, and the name followed by \<^verbatim>\<open>.json\<close> as its storage path. \<open>New\<close> is a
  function of the name alone, so there is no file system it could read or write.
\<close>

theorem New_cassette:
  "Name (New name) = name
   \<and> File (New name) = name @ ''.json''
   \<and> Version (New name) = 1
   \<and> Interactions (New name) = []
   \<and> Matcher (New name) = DefaultMatcher"
  by (simp add: New_def cassetteFormatV1_def)

subsection \<open>Saving\<close>

text \<open>
  C3. For a cassette whose interaction sequence is empty, \<open>Save\<close> returns no error and
  the file system is exactly what it was: no file is written, no directory is created, a
  fixture already at the cassette's path stays as it is, and no call at all is made (the
  record of calls is unchanged too).
\<close>

theorem Save_empty_is_noop:
  assumes "Interactions c = []"
  shows "Save filepath_Dir c fs = (None, fs)"
  using assms by (simp add: Save_def)

theorem Save_empty_is_noop_witness:
  "Interactions (New ''fixtures/golang-org'') = []
   \<and> files golang_fs (File (New ''fixtures/golang-org''))
       = Some (Document (enc_Cassette golang_cassette))
   \<and> Save fixtures_Dir (New ''fixtures/golang-org'') golang_fs = (None, golang_fs)"
proof -
  have e: "Interactions (New ''fixtures/golang-org'') = []" by (simp add: New_def)
  from Save_empty_is_noop [OF e, of fixtures_Dir golang_fs] e golang_fs_fixture
  show ?thesis by (simp add: New_def)
qed

text \<open>
  C5. The claim: for every non-empty cassette, \<open>Save\<close> followed by \<open>Load\<close> of the same
  fixture name gives back the version and the interactions, field for field, and the
  document holds the version and the interactions only. It fails for a string that is not
  valid UTF-8: the recorded body FF is written as U+FFFD and comes back as the three bytes
  EF BF BD.
\<close>

theorem Save_Load_binary_body_counterexample:
  "fst (Save fixtures_Dir binary_cassette empty_fs) = None
   \<and> fst (Load (Name binary_cassette) (snd (Save fixtures_Dir binary_cassette empty_fs)))
       = (Some (AddInteraction (New ''fixtures/favicon'')
            (Some (binary_interaction
               \<lparr>Response := (Response binary_interaction)
                  \<lparr>resp_Body := [CHR 0xEF, CHR 0xBF, CHR 0xBD]\<rparr>\<rparr>))), None)
   \<and> Interactions binary_cassette = [Some binary_interaction]
   \<and> resp_Body (Response binary_interaction) = [CHR 0xFF]"
  by (simp add: Load_def ioutil_ReadFile_def New_def Save_defs empty_fs_def fixtures_Dir_def
      binary_cassette_def AddInteraction_def binary_interaction_def
      json_Unmarshal_def enc_Cassette_def enc_Interaction_ptr_def enc_Interaction_def
      enc_Request_def enc_Response_def enc_string_def enc_header_def enc_int_def
      dec_Cassette_def dec_Interaction_def dec_Request_def dec_Response_def
      dec_Interaction_ptr_def store_Cassette_def store_Interaction_def store_Request_def
      store_Response_def json_field_def saveError_def zero_Interaction_def cassetteFormatV1_def
      RuneError_def sorted_list_of_fset_empty)

text \<open>
  C5, amended. Let \<open>c\<close> be a non-empty cassette whose path is its name followed by
  \<^verbatim>\<open>.json\<close> and whose strings are all valid UTF-8. If \<open>Save\<close> succeeds and the read is
  not refused, \<open>Load\<close> of the cassette's name succeeds and returns \<open>c\<close> itself but for the
  matcher, which is the default one: the same version and the same interactions in the
  same order. The file holds an object of two members, the version and the interactions,
  and is the same whatever the name, the path and the matcher of the cassette are.
\<close>

theorem Save_Load_roundtrip:
  assumes "Interactions c \<noteq> []"
    and "File c = Name c @ ''.json''"
    and "utf8_Cassette c"
    and "Save filepath_Dir c fs = (None, fs')"
    and "\<not> refuses fs (OpReadFile (File c))"
  shows "fst (Load (Name c) fs') = (Some (c\<lparr>Matcher := DefaultMatcher\<rparr>), None)
     \<and> files fs' (File c)
         = Some (Document (JObject [(''version'', JInt (sint (Version c))),
              (''interactions'', JArray (map enc_Interaction_ptr (Interactions c)))]))
     \<and> enc_Cassette (c\<lparr>Name := n, File := f, Matcher := m\<rparr>) = enc_Cassette c"
  using Load_after_Save [OF assms] Save_success [OF assms(1) assms(4)]
  by (simp add: enc_Cassette_def enc_int_def)

theorem Save_Load_roundtrip_witness:
  "Interactions golang_cassette = [Some golang_interaction]
   \<and> Save fixtures_Dir golang_cassette empty_fs = (None, golang_fs)
   \<and> fst (Load ''fixtures/golang-org'' golang_fs) = (Some golang_cassette, None)
   \<and> files golang_fs ''fixtures/golang-org.json''
       = Some (Document (JObject [(''version'', JInt 1),
            (''interactions'', JArray [enc_Interaction golang_interaction])]))"
proof -
  have 1: "Interactions golang_cassette \<noteq> []"
    and 2: "File golang_cassette = Name golang_cassette @ ''.json''"
    and 3: "utf8_Cassette golang_cassette"
    and 5: "\<not> refuses empty_fs (OpReadFile (File golang_cassette))"
    using utf8_golang_interaction
    by (simp_all add: golang_cassette_def AddInteraction_def New_def utf8_Cassette_def
        empty_fs_def)
  from Save_Load_roundtrip [OF 1 2 3 Save_golang 5] Save_golang
  show ?thesis
    by (simp add: golang_cassette_def AddInteraction_def New_def cassetteFormatV1_def
        enc_Interaction_ptr_def)
qed

subsection \<open>Loading\<close>

text \<open>
  C4. The claim: a well-formed document whose version is anything but 1 makes \<open>Load\<close>
  fail. \<open>Load\<close> compares the version with nothing: the fixture of version 2 loads without
  an error, as a cassette of version 2 holding its interaction.
\<close>

theorem Load_version_2_counterexample:
  "fst (Load ''fixtures/v2'' v2_fs)
     = (Some ((New ''fixtures/v2'')\<lparr>Version := 2, Interactions := [Some golang_interaction]\<rparr>),
        None)"
  using dec_golang_interaction
  by (simp add: Load_cases ioutil_ReadFile_def v2_fs_def empty_fs_def v2_document_def
      json_Unmarshal_def dec_Cassette_def json_field_def store_Cassette_def saveError_def
      New_def)

text \<open>
  C4, amended. For a document with the members \<^verbatim>\<open>version\<close> and \<^verbatim>\<open>interactions\<close> whose
  version is an integer \<open>v\<close> of the 64-bit range, 1 or not, \<open>Load\<close> does not fail on
  account of the version: it returns a cassette whose \<open>Version\<close> is \<open>v\<close>, with the
  interactions decoded from the array, and its error is the error of decoding that array,
  none when there is none.
\<close>

theorem Load_keeps_any_version:
  assumes "files fs (name @ ''.json'')
             = Some (Document (JObject [(''version'', JInt v), (''interactions'', JArray js)]))"
    and "\<not> refuses fs (OpReadFile (name @ ''.json''))"
    and "- (2 ^ 63) \<le> v" "v < 2 ^ 63"
  shows "fst (Load name fs)
           = (Some ((New name)\<lparr>Version := word_of_int v,
                                Interactions := fst (dec_elements dec_Interaction_ptr None js [])\<rparr>),
              snd (dec_elements dec_Interaction_ptr None js []))"
  using assms
  by (simp add: Load_cases ioutil_ReadFile_def json_Unmarshal_def dec_Cassette_def json_field_def
      store_Cassette_def saveError_def New_def split: prod.splits option.splits)

theorem Load_keeps_any_version_witness:
  "files v2_fs ''fixtures/v2.json''
     = Some (Document (JObject [(''version'', JInt 2),
          (''interactions'', JArray [enc_Interaction golang_interaction])]))
   \<and> fst (Load ''fixtures/v2'' v2_fs)
       = (Some ((New ''fixtures/v2'')\<lparr>Version := 2, Interactions := [Some golang_interaction]\<rparr>),
          None)
   \<and> cassetteFormatV1 \<noteq> 2"
proof -
  have f: "files v2_fs (''fixtures/v2'' @ ''.json'')
          = Some (Document (JObject [(''version'', JInt 2),
                (''interactions'', JArray [enc_Interaction golang_interaction])]))"
    by (simp add: v2_fs_def v2_document_def)
  have r: "\<not> refuses v2_fs (OpReadFile (''fixtures/v2'' @ ''.json''))"
    by (simp add: v2_fs_def empty_fs_def)
  from Load_keeps_any_version [OF f r] dec_golang_interaction f
  show ?thesis by (simp add: saveError_def cassetteFormatV1_def)
qed

text \<open>
  C8. Whatever the fixture holds, a cassette returned by \<open>Load\<close> has the default matcher:
  the matcher is set by \<open>New\<close> and decoding does not touch it. A matcher the cassette had
  when it was saved is not in the document, so it does not come back.
\<close>

theorem Load_resets_Matcher:
  assumes "fst (Load name fs) = (Some c, err)"
  shows "Matcher c = DefaultMatcher"
proof (cases "fst (ioutil_ReadFile (name @ ''.json'') fs)")
  case (Inl e)
  with assms show ?thesis by (simp add: Load_cases)
next
  case (Inr data)
  with assms have "fst (json_Unmarshal data (New name)) = Some c"
    by (simp add: Load_cases)
  from json_Unmarshal_keeps [OF this] show ?thesis by (simp add: New_def)
qed

theorem Load_resets_Matcher_witness:
  "fst (Load ''fixtures/golang-org'' (snd (Save fixtures_Dir strict_cassette empty_fs)))
     = (Some golang_cassette, None)
   \<and> Matcher golang_cassette = DefaultMatcher
   \<and> Matcher golang_cassette (golang_request\<lparr>http_Body := ''q=1''\<rparr>) (Request golang_interaction)
   \<and> \<not> Matcher strict_cassette (golang_request\<lparr>http_Body := ''q=1''\<rparr>) (Request golang_interaction)"
proof -
  from Load_resets_Matcher [OF Load_strict]
  have "Matcher golang_cassette = DefaultMatcher" .
  with Load_strict show ?thesis
    by (simp add: strict_cassette_def DefaultMatcher_def golang_request_def golang_interaction_def)
qed

text \<open>
  C10. When the file is read and decoding fails with an error \<open>e\<close>, \<open>Load\<close> returns a
  cassette together with \<open>e\<close>: the cassette has the name, the derived path and the default
  matcher of the freshly created one, and it is the freshly created one (version 1, no
  interaction) when the text is not JSON at all; otherwise its version and interactions
  are what the failed decoding left. When the file cannot be read, \<open>Load\<close> returns no
  cassette and the error of the read.
\<close>

theorem Load_decode_failure:
  "(fst (ioutil_ReadFile (name @ ''.json'') fs) = Inr data
      \<and> snd (json_Unmarshal data (New name)) = Some e
    \<longrightarrow> (\<exists>c'. fst (Load name fs) = (Some c', Some e)
           \<and> Name c' = name \<and> File c' = name @ ''.json'' \<and> Matcher c' = DefaultMatcher
           \<and> (data = Malformed \<longrightarrow> c' = New name)))
   \<and> (fst (ioutil_ReadFile (name @ ''.json'') fs) = Inl e'
        \<longrightarrow> fst (Load name fs) = (None, Some e'))"
proof (intro conjI impI)
  assume a: "fst (ioutil_ReadFile (name @ ''.json'') fs) = Inr data
      \<and> snd (json_Unmarshal data (New name)) = Some e"
  then obtain c' where c': "fst (json_Unmarshal data (New name)) = Some c'"
    using json_Unmarshal_error_cassette by blast
  from json_Unmarshal_keeps [OF c']
  have k: "Name c' = name \<and> File c' = name @ ''.json'' \<and> Matcher c' = DefaultMatcher"
    by (simp add: New_def)
  have m: "data = Malformed \<longrightarrow> c' = New name"
    using c' by (auto simp: json_Unmarshal_def)
  from a c' have "fst (Load name fs) = (Some c', Some e)"
    by (simp add: Load_cases prod_eq_iff)
  with k m show "\<exists>c'. fst (Load name fs) = (Some c', Some e)
           \<and> Name c' = name \<and> File c' = name @ ''.json'' \<and> Matcher c' = DefaultMatcher
           \<and> (data = Malformed \<longrightarrow> c' = New name)"
    by blast
next
  assume "fst (ioutil_ReadFile (name @ ''.json'') fs) = Inl e'"
  then show "fst (Load name fs) = (None, Some e')" by (simp add: Load_cases)
qed

theorem Load_decode_failure_witness:
  "fst (Load ''fixtures/broken'' broken_fs) = (Some (New ''fixtures/broken''), Some SyntaxError)
   \<and> fst (Load ''fixtures/mistyped'' broken_fs)
       = (Some ((New ''fixtures/mistyped'')\<lparr>Version := 7\<rparr>), Some UnmarshalTypeError)
   \<and> fst (Load ''fixtures/missing'' broken_fs) = (None, Some ErrNotExist)"
proof -
  let ?doc = "Document (JObject [(''version'', JInt 7), (''interactions'', JString ''none'')])"
  have r1: "fst (ioutil_ReadFile (''fixtures/broken'' @ ''.json'') broken_fs) = Inr Malformed
      \<and> snd (json_Unmarshal Malformed (New ''fixtures/broken'')) = Some SyntaxError"
    by (simp add: ioutil_ReadFile_def broken_fs_def empty_fs_def json_Unmarshal_def)
  have u2: "json_Unmarshal ?doc (New ''fixtures/mistyped'')
              = (Some ((New ''fixtures/mistyped'')\<lparr>Version := 7\<rparr>), Some UnmarshalTypeError)"
    by (simp add: json_Unmarshal_def dec_Cassette_def json_field_def store_Cassette_def
        saveError_def New_def)
  have r2: "fst (ioutil_ReadFile (''fixtures/mistyped'' @ ''.json'') broken_fs) = Inr ?doc
      \<and> snd (json_Unmarshal ?doc (New ''fixtures/mistyped'')) = Some UnmarshalTypeError"
    using u2 by (simp add: ioutil_ReadFile_def broken_fs_def empty_fs_def)
  have r3: "fst (ioutil_ReadFile (''fixtures/missing'' @ ''.json'') broken_fs) = Inl ErrNotExist"
    by (simp add: ioutil_ReadFile_def broken_fs_def empty_fs_def)
  from Load_decode_failure [of "''fixtures/broken''" broken_fs Malformed SyntaxError] r1
  have "fst (Load ''fixtures/broken'' broken_fs) = (Some (New ''fixtures/broken''), Some SyntaxError)"
    by auto
  moreover from Load_decode_failure [of "''fixtures/mistyped''" broken_fs ?doc UnmarshalTypeError] r2
  have "\<exists>c'. fst (Load ''fixtures/mistyped'' broken_fs) = (Some c', Some UnmarshalTypeError)"
    by blast
  then have "fst (Load ''fixtures/mistyped'' broken_fs)
       = (Some ((New ''fixtures/mistyped'')\<lparr>Version := 7\<rparr>), Some UnmarshalTypeError)"
    using r2 u2 by (auto simp: Load_cases)
  moreover from Load_decode_failure [of "''fixtures/missing''" broken_fs _ _ ErrNotExist] r3
  have "fst (Load ''fixtures/missing'' broken_fs) = (None, Some ErrNotExist)"
    by blast
  ultimately show ?thesis by simp
qed

end
